theory Spec2Isabelle
  imports Main "HOL-Library.Word" "HOL-Library.Sublist"
begin

section \<open>Go values used by the reporter\<close>

text \<open>
  The development embeds \<^verbatim>\<open>pkg/reporter/junit_reporter.go\<close>. Go strings are byte
  strings, modelled as \<^typ>\<open>string\<close>. A Go \<^verbatim>\<open>int\<close> is modelled as \<^typ>\<open>int\<close>: the only
  arithmetic of the file is a counter bounded by the length of a slice and the length
  itself, so no operation wraps. A value of interface type \<^verbatim>\<open>error\<close> is its string
  form (what \<^verbatim>\<open>Error()\<close> returns); the nil interface is \<^term>\<open>None\<close>.
\<close>

datatype go_error = GoError (Error: string)

text \<open>
  A call either returns or panics. The one panic the file can raise is the method call
  on a nil \<^verbatim>\<open>error\<close> interface in \<^verbatim>\<open>Print\<close>.
\<close>

datatype 'a outcome = Panic string | Return 'a

definition nil_dereference :: string where
  "nil_dereference = ''runtime error: invalid memory address or nil pointer dereference''"

text \<open>
  \<^verbatim>\<open>float32\<close> is its IEEE 754 bit pattern; the file only ever asks whether the value
  is zero, which holds for both signed zeros: all bits but the sign bit are clear.
  \<^verbatim>\<open>time.Time\<close> is an uninterpreted instant: the file stores it and hands it to the
  encoder, and never reads it.
\<close>

type_synonym float32 = "32 word"

definition float32_is_zero :: "float32 \<Rightarrow> bool" where
  "float32_is_zero f = (take_bit 31 f = 0)"

datatype time_Time = Time_Time int

subsection \<open>The standard-library string functions called by Print\<close>

text \<open>\<^verbatim>\<open>strings.Contains(s, substr)\<close>: \<^verbatim>\<open>substr\<close> occurs somewhere in \<^verbatim>\<open>s\<close>.\<close>

fun strings_Contains :: "string \<Rightarrow> string \<Rightarrow> bool" where
  "strings_Contains [] substr = (substr = [])"
| "strings_Contains (c # cs) substr = (prefix substr (c # cs) \<or> strings_Contains cs substr)"

text \<open>
  \<^verbatim>\<open>strings.ReplaceAll(s, old, new)\<close> for a non-empty \<^verbatim>\<open>old\<close>: the non-overlapping
  occurrences of \<^verbatim>\<open>old\<close> are replaced from left to right. (For an empty \<^verbatim>\<open>old\<close> Go
  inserts \<^verbatim>\<open>new\<close> at every rune boundary; the file never calls it so, and the model
  returns \<^verbatim>\<open>s\<close> there.)
\<close>

function strings_ReplaceAll :: "string \<Rightarrow> string \<Rightarrow> string \<Rightarrow> string" where
  "strings_ReplaceAll s old new =
     (if old = [] \<or> s = [] then s
      else if prefix old s then new @ strings_ReplaceAll (drop (length old) s) old new
      else hd s # strings_ReplaceAll (tl s) old new)"
  by pat_completeness auto
termination
  by (relation "measure (\<lambda>(s, old, new). length s)") auto

declare strings_ReplaceAll.simps [simp del]

text \<open>\<^verbatim>\<open>fmt.Sprintf("%s validation", p)\<close>.\<close>

definition Sprintf_validation :: "string \<Rightarrow> string" where
  "Sprintf_validation p = p @ '' validation''"

text \<open>The two \<^verbatim>\<open>fmt.Errorf\<close> calls of \<^verbatim>\<open>checkPropertyValidity\<close> (lines 106 and 121).\<close>

definition Errorf_testsuite :: "string \<Rightarrow> string \<Rightarrow> go_error" where
  "Errorf_testsuite pname tsname =
     GoError (''property '' @ pname @ '' in testsuite '' @ tsname @
              '' should contain value or a text value, not both'')"

definition Errorf_testcase :: "string \<Rightarrow> string \<Rightarrow> go_error" where
  "Errorf_testcase pname tcname =
     GoError (''property '' @ pname @ '' in testcase '' @ tcname @
              '' should contain value or a text value, not both'')"

section \<open>The report tree (lines 10--95)\<close>

text \<open>
  One record per struct, the fields in the order of the source. Field names carry the
  struct's initials because several structs share the names \<^verbatim>\<open>Name\<close>, \<^verbatim>\<open>Message\<close>,
  \<^verbatim>\<open>TextValue\<close>, ... . A pointer field is an \<^typ>\<open>'a option\<close> with \<^term>\<open>None\<close> for nil.
  The \<^verbatim>\<open>XMLName\<close> fields are left out: each carries a tag with the element name, and
  the encoder prefers that tag to the field's value.
\<close>

definition Header :: string where
  \<open>Header = ''<?xml version="1.0" encoding="UTF-8"?>'' @ [CHR 0x0A]\<close>

record Property =
  prop_TextValue :: string
  prop_Name :: string
  prop_Value :: string

record Skipped =
  skip_Message :: string

record TestcaseError =
  err_Message :: string
  err_Type :: string
  err_TextValue :: string

record TestcaseFailure =
  fail_Message :: string
  fail_Type :: string
  fail_TextValue :: string

record SystemOut =
  out_TextValue :: string

record SystemErr =
  serr_TextValue :: string

record Testcase =
  tc_Name :: string
  tc_ClassName :: string
  tc_Assertions :: int
  tc_Time :: float32
  tc_File :: string
  tc_Line :: int
  tc_Skipped :: "Skipped option"
  tc_Properties :: "Property list option"
  tc_TestcaseError :: "TestcaseError option"
  tc_TestcaseFailure :: "TestcaseFailure option"

record Testsuite =
  ts_Name :: string
  ts_Tests :: int
  ts_Failures :: int
  ts_Errors :: int
  ts_Skipped :: int
  ts_Assertions :: int
  ts_Time :: float32
  ts_Timestamp :: "time_Time option"
  ts_File :: string
  ts_Testcases :: "Testcase list option"
  ts_Properties :: "Property list option"
  ts_SystemOut :: "SystemOut option"
  ts_SystemErr :: "SystemErr option"

record Testsuites =
  tss_Name :: string
  tss_Tests :: int
  tss_Failures :: int
  tss_Errors :: int
  tss_Skipped :: int
  tss_Assertions :: int
  tss_Time :: float32
  tss_Timestamp :: "time_Time option"
  tss_Testsuites :: "Testsuite list"

text \<open>
  Go's zero values. A composite literal such as \<^verbatim>\<open>Testcase{Name: n, File: f}\<close> is the
  zero value updated at the fields it names.
\<close>

definition zero_Property :: Property where
  "zero_Property = \<lparr>prop_TextValue = [], prop_Name = [], prop_Value = []\<rparr>"

definition zero_TestcaseFailure :: TestcaseFailure where
  "zero_TestcaseFailure = \<lparr>fail_Message = [], fail_Type = [], fail_TextValue = []\<rparr>"

definition zero_Testcase :: Testcase where
  "zero_Testcase =
     \<lparr>tc_Name = [], tc_ClassName = [], tc_Assertions = 0, tc_Time = 0, tc_File = [],
      tc_Line = 0, tc_Skipped = None, tc_Properties = None, tc_TestcaseError = None,
      tc_TestcaseFailure = None\<rparr>"

definition zero_Testsuite :: Testsuite where
  "zero_Testsuite =
     \<lparr>ts_Name = [], ts_Tests = 0, ts_Failures = 0, ts_Errors = 0, ts_Skipped = 0,
      ts_Assertions = 0, ts_Time = 0, ts_Timestamp = None, ts_File = [],
      ts_Testcases = None, ts_Properties = None, ts_SystemOut = None,
      ts_SystemErr = None\<rparr>"

definition zero_Testsuites :: Testsuites where
  "zero_Testsuites =
     \<lparr>tss_Name = [], tss_Tests = 0, tss_Failures = 0, tss_Errors = 0, tss_Skipped = 0,
      tss_Assertions = 0, tss_Time = 0, tss_Timestamp = None, tss_Testsuites = []\<rparr>"

text \<open>
  Modelled from the spec: the \<^verbatim>\<open>Report\<close> struct that \<^verbatim>\<open>Print\<close> receives is declared
  in another file of the package. The spec gives it a file path, a validity flag and an
  error value; these are the three fields \<^verbatim>\<open>Print\<close> reads.
\<close>

record Report =
  FilePath :: string
  IsValid :: bool
  ValidationError :: "go_error option"

section \<open>checkPropertyValidity (lines 97--128)\<close>

text \<open>
  The three inner loops, each returning the error of the first offending property.
  \<^verbatim>\<open>continue\<close> is "go on with the rest of the list".
\<close>

fun check_testsuite_properties :: "Testsuite \<Rightarrow> Property list \<Rightarrow> go_error option" where
  "check_testsuite_properties testsuite [] = None"
| "check_testsuite_properties testsuite (property # rest) =
     (if prop_Value property \<noteq> [] \<and> prop_TextValue property \<noteq> []
      then Some (Errorf_testsuite (prop_Name property) (ts_Name testsuite))
      else check_testsuite_properties testsuite rest)"

fun check_testcase_properties :: "Testcase \<Rightarrow> Property list \<Rightarrow> go_error option" where
  "check_testcase_properties testcase [] = None"
| "check_testcase_properties testcase (property # rest) =
     (if prop_Value property \<noteq> [] \<and> prop_TextValue property \<noteq> []
      then Some (Errorf_testcase (prop_Name property) (tc_Name testcase))
      else check_testcase_properties testcase rest)"

fun check_testcases :: "Testcase list \<Rightarrow> go_error option" where
  "check_testcases [] = None"
| "check_testcases (testcase # rest) =
     (case tc_Properties testcase of
        None \<Rightarrow> check_testcases rest
      | Some props \<Rightarrow>
          (case check_testcase_properties testcase props of
             Some err \<Rightarrow> Some err
           | None \<Rightarrow> check_testcases rest))"

text \<open>
  The outer loop. A suite whose \<^verbatim>\<open>Properties\<close> pointer is nil is left by the
  \<^verbatim>\<open>continue\<close> of line 101, before its test cases are looked at.
\<close>

fun check_testsuites :: "Testsuite list \<Rightarrow> go_error option" where
  "check_testsuites [] = None"
| "check_testsuites (testsuite # rest) =
     (case ts_Properties testsuite of
        None \<Rightarrow> check_testsuites rest
      | Some props \<Rightarrow>
          (case check_testsuite_properties testsuite props of
             Some err \<Rightarrow> Some err
           | None \<Rightarrow>
               (case ts_Testcases testsuite of
                  None \<Rightarrow> check_testsuites rest
                | Some testcases \<Rightarrow>
                    (case check_testcases testcases of
                       Some err \<Rightarrow> Some err
                     | None \<Rightarrow> check_testsuites rest))))"

definition checkPropertyValidity :: "Testsuites \<Rightarrow> go_error option" where
  "checkPropertyValidity ts = check_testsuites (tss_Testsuites ts)"

section \<open>Serialization: the struct tags read as encoding/xml reads them\<close>

text \<open>
  \<^verbatim>\<open>xml.MarshalIndent\<close> is the standard library's. What the repository decides is
  written in the struct tags of lines 17--95: which fields are attributes
  (\<^verbatim>\<open>,attr\<close>), which are left out when zero (\<^verbatim>\<open>,omitempty\<close>), which are character
  data (\<^verbatim>\<open>,chardata\<close>) and which, having none of these flags, are child elements.
  The model splits the library call in two: \<open>marshal_Testsuites\<close> builds the element
  tree the tags prescribe, attributes first and then the remaining fields in field
  order, as the encoder walks a struct; the text encoding of that tree (escaping,
  number and time formats, indentation, and its failures) is a parameter of type
  \<open>encoder\<close>.
\<close>

datatype attr_value =
    AttrString string
  | AttrInt int
  | AttrFloat float32
  | AttrTime time_Time

datatype xml_node =
    Element string "(string \<times> attr_value) list" "xml_node list"
  | CharData string

type_synonym encoder = "xml_node \<Rightarrow> go_error + string"

text \<open>An attribute without \<^verbatim>\<open>omitempty\<close>, and the \<^verbatim>\<open>omitempty\<close> ones by Go type.\<close>

definition attr_string :: "string \<Rightarrow> string \<Rightarrow> (string \<times> attr_value) list" where
  "attr_string name s = [(name, AttrString s)]"

definition attr_string_omitempty :: "string \<Rightarrow> string \<Rightarrow> (string \<times> attr_value) list" where
  "attr_string_omitempty name s = (if s = [] then [] else [(name, AttrString s)])"

definition attr_int_omitempty :: "string \<Rightarrow> int \<Rightarrow> (string \<times> attr_value) list" where
  "attr_int_omitempty name i = (if i = 0 then [] else [(name, AttrInt i)])"

definition attr_float_omitempty :: "string \<Rightarrow> float32 \<Rightarrow> (string \<times> attr_value) list" where
  "attr_float_omitempty name f = (if float32_is_zero f then [] else [(name, AttrFloat f)])"

definition attr_time_omitempty :: "string \<Rightarrow> time_Time option \<Rightarrow> (string \<times> attr_value) list" where
  "attr_time_omitempty name t = (case t of None \<Rightarrow> [] | Some v \<Rightarrow> [(name, AttrTime v)])"

text \<open>A string field tagged \<^verbatim>\<open>xml:"name,omitempty"\<close>, with no \<^verbatim>\<open>attr\<close>: a child element.\<close>

definition elem_string_omitempty :: "string \<Rightarrow> string \<Rightarrow> xml_node list" where
  "elem_string_omitempty name s = (if s = [] then [] else [Element name [] [CharData s]])"

definition marshal_Property :: "Property \<Rightarrow> xml_node" where
  "marshal_Property p =
     Element ''property''
       (attr_string ''name'' (prop_Name p) @ attr_string_omitempty ''value'' (prop_Value p))
       [CharData (prop_TextValue p)]"

definition marshal_Skipped :: "Skipped \<Rightarrow> xml_node" where
  "marshal_Skipped s = Element ''skipped'' (attr_string ''message'' (skip_Message s)) []"

definition marshal_TestcaseError :: "TestcaseError \<Rightarrow> xml_node" where
  "marshal_TestcaseError e =
     Element ''error'' []
       (elem_string_omitempty ''message'' (err_Message e) @
        elem_string_omitempty ''type'' (err_Type e) @
        [CharData (err_TextValue e)])"

definition marshal_TestcaseFailure :: "TestcaseFailure \<Rightarrow> xml_node" where
  "marshal_TestcaseFailure f =
     Element ''failure'' []
       (elem_string_omitempty ''message'' (fail_Message f) @
        elem_string_omitempty ''type'' (fail_Type f) @
        [CharData (fail_TextValue f)])"

definition marshal_SystemOut :: "SystemOut \<Rightarrow> xml_node" where
  "marshal_SystemOut s = Element ''system-out'' [] [CharData (out_TextValue s)]"

definition marshal_SystemErr :: "SystemErr \<Rightarrow> xml_node" where
  "marshal_SystemErr s = Element ''system-err'' [] [CharData (serr_TextValue s)]"

text \<open>
  \<^verbatim>\<open>xml:"properties>property,omitempty"\<close> on a \<^verbatim>\<open>*[]Property\<close>: nothing for a nil
  pointer, otherwise a \<^verbatim>\<open>properties\<close> element around one \<^verbatim>\<open>property\<close> per entry.
\<close>

definition marshal_Properties :: "Property list option \<Rightarrow> xml_node list" where
  "marshal_Properties ps =
     (case ps of None \<Rightarrow> [] | Some props \<Rightarrow> [Element ''properties'' [] (map marshal_Property props)])"

definition marshal_Testcase :: "Testcase \<Rightarrow> xml_node" where
  "marshal_Testcase tc =
     Element ''testcase''
       (attr_string ''name'' (tc_Name tc) @
        attr_string ''classname'' (tc_ClassName tc) @
        attr_int_omitempty ''assertions'' (tc_Assertions tc) @
        attr_float_omitempty ''time'' (tc_Time tc) @
        attr_string_omitempty ''file'' (tc_File tc) @
        attr_int_omitempty ''line'' (tc_Line tc))
       (map marshal_Skipped (case tc_Skipped tc of None \<Rightarrow> [] | Some s \<Rightarrow> [s]) @
        marshal_Properties (tc_Properties tc) @
        map marshal_TestcaseError (case tc_TestcaseError tc of None \<Rightarrow> [] | Some e \<Rightarrow> [e]) @
        map marshal_TestcaseFailure (case tc_TestcaseFailure tc of None \<Rightarrow> [] | Some f \<Rightarrow> [f]))"

definition marshal_Testsuite :: "Testsuite \<Rightarrow> xml_node" where
  "marshal_Testsuite ts =
     Element ''testsuite''
       (attr_string ''name'' (ts_Name ts) @
        attr_int_omitempty ''tests'' (ts_Tests ts) @
        attr_int_omitempty ''failures'' (ts_Failures ts) @
        attr_int_omitempty ''errors'' (ts_Errors ts) @
        attr_int_omitempty ''skipped'' (ts_Skipped ts) @
        attr_int_omitempty ''assertions'' (ts_Assertions ts) @
        attr_float_omitempty ''time'' (ts_Time ts) @
        attr_time_omitempty ''timestamp'' (ts_Timestamp ts) @
        attr_string_omitempty ''file'' (ts_File ts))
       (map marshal_Testcase (case ts_Testcases ts of None \<Rightarrow> [] | Some tcs \<Rightarrow> tcs) @
        marshal_Properties (ts_Properties ts) @
        map marshal_SystemOut (case ts_SystemOut ts of None \<Rightarrow> [] | Some s \<Rightarrow> [s]) @
        map marshal_SystemErr (case ts_SystemErr ts of None \<Rightarrow> [] | Some s \<Rightarrow> [s]))"

definition marshal_Testsuites :: "Testsuites \<Rightarrow> xml_node" where
  "marshal_Testsuites d =
     Element ''testsuites''
       (attr_string_omitempty ''name'' (tss_Name d) @
        attr_int_omitempty ''tests'' (tss_Tests d) @
        attr_int_omitempty ''failures'' (tss_Failures d) @
        attr_int_omitempty ''errors'' (tss_Errors d) @
        attr_int_omitempty ''skipped'' (tss_Skipped d) @
        attr_int_omitempty ''assertions'' (tss_Assertions d) @
        attr_float_omitempty ''time'' (tss_Time d) @
        attr_time_omitempty ''timestamp'' (tss_Timestamp d))
       (map marshal_Testsuite (tss_Testsuites d))"

text \<open>Reading the tree: every element of it, and whether an attribute carries a zero value.\<close>

fun elements :: "xml_node \<Rightarrow> xml_node list" where
  "elements (Element name attrs children) =
     Element name attrs children # concat (map elements children)"
| "elements (CharData s) = []"

fun attr_is_zero :: "attr_value \<Rightarrow> bool" where
  "attr_is_zero (AttrString s) = (s = [])"
| "attr_is_zero (AttrInt i) = (i = 0)"
| "attr_is_zero (AttrFloat f) = float32_is_zero f"
| "attr_is_zero (AttrTime t) = False"

fun node_name :: "xml_node \<Rightarrow> string" where
  "node_name (Element name attrs children) = name"
| "node_name (CharData s) = []"

fun node_attrs :: "xml_node \<Rightarrow> (string \<times> attr_value) list" where
  "node_attrs (Element name attrs children) = attrs"
| "node_attrs (CharData s) = []"

section \<open>getReport (lines 130--142)\<close>

definition getReport :: "encoder \<Rightarrow> Testsuites \<Rightarrow> go_error + string" where
  "getReport MarshalIndent ts =
     (case checkPropertyValidity ts of
        Some err \<Rightarrow> Inl err
      | None \<Rightarrow>
          (case MarshalIndent (marshal_Testsuites ts) of
             Inl err \<Rightarrow> Inl err
           | Inr data \<Rightarrow> Inr data))"

section \<open>Print (lines 144--171)\<close>

text \<open>Lines 149--151: the path of one report, backslashes rewritten.\<close>

definition Print_FilePath :: "string \<Rightarrow> string" where
  "Print_FilePath p =
     (if strings_Contains p [CHR 0x5C] then strings_ReplaceAll p [CHR 0x5C] ''/'' else p)"

text \<open>Line 152: the test case of a path.\<close>

definition Print_Testcase :: "string \<Rightarrow> Testcase" where
  "Print_Testcase p =
     zero_Testcase\<lparr>tc_Name := Sprintf_validation p, tc_File := p,
                   tc_ClassName := ''config-file-validator''\<rparr>"

text \<open>
  The loop of lines 148--160 over the reports still to visit, with the two variables it
  updates: the slice \<^verbatim>\<open>testcases\<close> and the counter \<^verbatim>\<open>testErrors\<close>. Calling
  \<^verbatim>\<open>Error()\<close> on a nil \<^verbatim>\<open>ValidationError\<close> panics.
\<close>

fun Print_loop :: "Report list \<Rightarrow> Testcase list \<Rightarrow> int \<Rightarrow> (Testcase list \<times> int) outcome" where
  "Print_loop [] testcases testErrors = Return (testcases, testErrors)"
| "Print_loop (r # rest) testcases testErrors =
     (let tc = Print_Testcase (Print_FilePath (FilePath r)) in
      if \<not> IsValid r then
        (case ValidationError r of
           None \<Rightarrow> Panic nil_dereference
         | Some err \<Rightarrow>
             Print_loop rest
               (testcases @
                [tc\<lparr>tc_TestcaseFailure := Some (zero_TestcaseFailure\<lparr>fail_Message := Error err\<rparr>)\<rparr>])
               (testErrors + 1))
      else Print_loop rest (testcases @ [tc]) testErrors)"

text \<open>Lines 145--163: the document \<^verbatim>\<open>ts\<close> that Print builds from the reports.\<close>

definition Print_build :: "Report list \<Rightarrow> Testsuites outcome" where
  "Print_build reports =
     (case Print_loop reports [] 0 of
        Panic msg \<Rightarrow> Panic msg
      | Return (testcases, testErrors) \<Rightarrow>
          Return (zero_Testsuites
            \<lparr>tss_Name := ''config-file-validator'',
             tss_Tests := int (length reports),
             tss_Testsuites :=
               [zero_Testsuite\<lparr>ts_Name := ''config-file-validator'',
                               ts_Testcases := Some testcases,
                               ts_Errors := testErrors\<rparr>]\<rparr>))"

text \<open>
  Lines 165--170: render the document and print it. The state is the text written to
  standard output so far; \<^verbatim>\<open>fmt.Println\<close> appends its argument and a newline.
\<close>

definition Print_write :: "encoder \<Rightarrow> Testsuites \<Rightarrow> string \<Rightarrow> go_error option \<times> string" where
  "Print_write MarshalIndent ts stdout =
     (case getReport MarshalIndent ts of
        Inl err \<Rightarrow> (Some err, stdout)
      | Inr data \<Rightarrow> (None, stdout @ (Header @ data) @ [CHR 0x0A]))"

definition Print :: "encoder \<Rightarrow> Report list \<Rightarrow> string \<Rightarrow> go_error option outcome \<times> string" where
  "Print MarshalIndent reports stdout =
     (case Print_build reports of
        Panic msg \<Rightarrow> (Panic msg, stdout)
      | Return ts \<Rightarrow>
          (case Print_write MarshalIndent ts stdout of
             (result, stdout') \<Rightarrow> (Return result, stdout')))"

section \<open>Reading results, and sample inputs\<close>

text \<open>The test cases of a built document, suite after suite (none when the build panicked).\<close>

definition built_cases :: "Testsuites outcome \<Rightarrow> Testcase list" where
  "built_cases res =
     (case res of
        Panic msg \<Rightarrow> []
      | Return doc \<Rightarrow>
          concat (map (\<lambda>s. case ts_Testcases s of None \<Rightarrow> [] | Some tcs \<Rightarrow> tcs)
                      (tss_Testsuites doc)))"

text \<open>
  The attributes whose tag is \<^verbatim>\<open>,attr\<close> without \<^verbatim>\<open>omitempty\<close>, as (element, attribute):
  lines 32, 49, 50, 63 and 93.
\<close>

definition always_emitted :: "(string \<times> string) list" where
  "always_emitted =
     [(''testsuite'', ''name''), (''testcase'', ''name''), (''testcase'', ''classname''),
      (''skipped'', ''message''), (''property'', ''name'')]"

text \<open>Stand-ins for the encoder parameter: one that returns a given text, one that fails.\<close>

definition fixed_encoder :: "string \<Rightarrow> encoder" where
  "fixed_encoder body = (\<lambda>tree. Inr body)"

definition failing_encoder :: "go_error \<Rightarrow> encoder" where
  "failing_encoder err = (\<lambda>tree. Inl err)"

text \<open>The example of the spec: a valid file, and an invalid one under a backslash path.\<close>

definition example_reports :: "Report list" where
  "example_reports =
     [\<lparr>FilePath = ''cfg/a.yaml'', IsValid = True, ValidationError = None\<rparr>,
      \<lparr>FilePath = ''cfg'' @ [CHR 0x5C] @ ''b.yaml'', IsValid = False,
       ValidationError = Some (GoError ''bad key'')\<rparr>]"

definition windows_report :: Report where
  "windows_report =
     \<lparr>FilePath = ''a'' @ [CHR 0x5C] @ ''b'' @ [CHR 0x5C] @ ''c.yaml'', IsValid = True,
      ValidationError = None\<rparr>"

definition invalid_report :: Report where
  "invalid_report =
     \<lparr>FilePath = ''a.yaml'', IsValid = False, ValidationError = Some (GoError ''bad key'')\<rparr>"

text \<open>A property with both a value attribute and inline text.\<close>

definition both_property :: Property where
  "both_property = \<lparr>prop_TextValue = ''y'', prop_Name = ''p'', prop_Value = ''x''\<rparr>"

text \<open>The offending property on a suite.\<close>

definition suite_property_doc :: Testsuites where
  "suite_property_doc =
     zero_Testsuites\<lparr>tss_Testsuites :=
       [zero_Testsuite\<lparr>ts_Name := ''s'', ts_Properties := Some [both_property]\<rparr>]\<rparr>"

text \<open>The offending property on a case whose suite has a nil \<^verbatim>\<open>Properties\<close> pointer.\<close>

definition case_property_doc :: Testsuites where
  "case_property_doc =
     zero_Testsuites\<lparr>tss_Testsuites :=
       [zero_Testsuite\<lparr>ts_Name := ''s'',
          ts_Testcases := Some [zero_Testcase\<lparr>tc_Name := ''c'',
                                  tc_Properties := Some [both_property]\<rparr>]\<rparr>]\<rparr>"

text \<open>The same case under a suite whose \<^verbatim>\<open>Properties\<close> pointer is set, to an empty slice.\<close>

definition case_property_doc_checked :: Testsuites where
  "case_property_doc_checked =
     zero_Testsuites\<lparr>tss_Testsuites :=
       [zero_Testsuite\<lparr>ts_Name := ''s'', ts_Properties := Some [],
          ts_Testcases := Some [zero_Testcase\<lparr>tc_Name := ''c'',
                                  tc_Properties := Some [both_property]\<rparr>]\<rparr>]\<rparr>"

text \<open>A suite with a property and a skipped case that leave their required attributes empty.\<close>

definition empty_names_doc :: Testsuites where
  "empty_names_doc =
     zero_Testsuites\<lparr>tss_Testsuites :=
       [zero_Testsuite\<lparr>ts_Properties := Some [zero_Property],
          ts_Testcases := Some [zero_Testcase\<lparr>tc_Skipped := Some \<lparr>skip_Message = []\<rparr>\<rparr>]\<rparr>]\<rparr>"

text \<open>
  What one pass of the loop body appends for a report whose error, if it is invalid, is
  there to be read, and the number of invalid reports: the loop's result in closed form.
  (An invalid report without an error makes the loop panic; \<open>case_of_report\<close> is not
  used for it.)
\<close>

definition case_of_report :: "Report \<Rightarrow> Testcase" where
  "case_of_report r =
     (let tc = Print_Testcase (Print_FilePath (FilePath r)) in
      if IsValid r then tc
      else tc\<lparr>tc_TestcaseFailure :=
                map_option (\<lambda>err. zero_TestcaseFailure\<lparr>fail_Message := Error err\<rparr>)
                  (ValidationError r)\<rparr>)"

definition count_invalid :: "Report list \<Rightarrow> int" where
  "count_invalid rs = int (length (filter (\<lambda>r. \<not> IsValid r) rs))"

text \<open>
  The attributes of one element follow the tags: one that carries a zero value is among
  the always-emitted ones, and each always-emitted attribute of the element is there.
\<close>

definition attrs_conform :: "xml_node \<Rightarrow> bool" where
  "attrs_conform n =
     (list_all (\<lambda>(k, v). attr_is_zero v \<longrightarrow> (node_name n, k) \<in> set always_emitted)
        (node_attrs n) \<and>
      list_all (\<lambda>(e, k). e = node_name n \<longrightarrow> k \<in> fst ` set (node_attrs n)) always_emitted)"

section \<open>The string functions on a single byte\<close>

lemma ReplaceAll_byte:
  "strings_ReplaceAll s [a] [b] = map (\<lambda>c. if c = a then b else c) s"
proof (induction s)
  case Nil
  show ?case by (simp add: strings_ReplaceAll.simps)
next
  case (Cons c cs)
  then show ?case
    by (subst strings_ReplaceAll.simps) auto
qed

lemma Contains_byte: "strings_Contains s [a] = (a \<in> set s)"
  by (induction s) auto

lemma Print_FilePath_map:
  "Print_FilePath p = map (\<lambda>c. if c = CHR 0x5C then CHR ''/'' else c) p"
proof (cases "CHR 0x5C \<in> set p")
  case True
  then show ?thesis
    by (simp add: Print_FilePath_def ReplaceAll_byte Contains_byte)
next
  case False
  then have "map (\<lambda>c. if c = CHR 0x5C then CHR ''/'' else c) p = p"
    by (intro map_idI) auto
  with False show ?thesis
    by (simp add: Print_FilePath_def Contains_byte)
qed

section \<open>The loop of Print in closed form\<close>

text \<open>
  When every invalid report carries an error, the loop returns: it appends one case per
  report, in order, and adds the number of invalid reports to the counter.
\<close>

lemma Print_loop_Return:
  assumes "\<forall>r\<in>set rs. \<not> IsValid r \<longrightarrow> ValidationError r \<noteq> None"
  shows "Print_loop rs tcs n = Return (tcs @ map case_of_report rs, n + count_invalid rs)"
  using assms
proof (induction rs arbitrary: tcs n)
  case Nil
  show ?case by (simp add: count_invalid_def)
next
  case (Cons r rs)
  then have IH: "\<And>tcs n. Print_loop rs tcs n =
                   Return (tcs @ map case_of_report rs, n + count_invalid rs)"
    by simp
  show ?case
  proof (cases "IsValid r")
    case True
    then show ?thesis
      by (simp add: IH case_of_report_def count_invalid_def)
  next
    case False
    with Cons.prems obtain e where "ValidationError r = Some e"
      by auto
    with False show ?thesis
      by (simp add: IH case_of_report_def count_invalid_def)
  qed
qed

text \<open>An invalid report without an error makes the loop panic, wherever it stands.\<close>

lemma Print_loop_Panic:
  assumes "r \<in> set rs" "\<not> IsValid r" "ValidationError r = None"
  shows "Print_loop rs tcs n = Panic nil_dereference"
  using assms
proof (induction rs arbitrary: tcs n)
  case Nil
  then show ?case by simp
next
  case (Cons a rs)
  show ?case
  proof (cases "a = r")
    case True
    with Cons.prems show ?thesis by simp
  next
    case False
    with Cons have "\<And>tcs n. Print_loop rs tcs n = Panic nil_dereference"
      by simp
    then show ?thesis
      by (simp add: Let_def split: option.split)
  qed
qed

lemma Print_build_Return:
  assumes "\<forall>r\<in>set reports. \<not> IsValid r \<longrightarrow> ValidationError r \<noteq> None"
  shows "Print_build reports =
           Return (zero_Testsuites
             \<lparr>tss_Name := ''config-file-validator'',
              tss_Tests := int (length reports),
              tss_Testsuites :=
                [zero_Testsuite\<lparr>ts_Name := ''config-file-validator'',
                                ts_Testcases := Some (map case_of_report reports),
                                ts_Errors := count_invalid reports\<rparr>]\<rparr>)"
  by (simp add: Print_build_def Print_loop_Return [OF assms])

lemma zero_Testsuites_sel:
  "tss_Testsuites (zero_Testsuites\<lparr>tss_Name := a, tss_Tests := b, tss_Testsuites := c\<rparr>) = c"
  "tss_Tests (zero_Testsuites\<lparr>tss_Name := a, tss_Tests := b, tss_Testsuites := c\<rparr>) = b"
  "tss_Name (zero_Testsuites\<lparr>tss_Name := a, tss_Tests := b, tss_Testsuites := c\<rparr>) = a"
  by simp_all

lemma case_of_report_fields:
  "tc_Name (case_of_report r) = Print_FilePath (FilePath r) @ '' validation''"
  "tc_File (case_of_report r) = Print_FilePath (FilePath r)"
  "tc_ClassName (case_of_report r) = ''config-file-validator''"
  "tc_TestcaseError (case_of_report r) = None"
  "tc_Skipped (case_of_report r) = None"
  "tc_Properties (case_of_report r) = None"
  "tc_TestcaseFailure (case_of_report r) =
     (if IsValid r then None
      else map_option (\<lambda>err. zero_TestcaseFailure\<lparr>fail_Message := Error err\<rparr>)
             (ValidationError r))"
  by (simp_all add: case_of_report_def Print_Testcase_def zero_Testcase_def
        Sprintf_validation_def Let_def)

text \<open>A document built by Print carries no property, so the validator accepts it.\<close>

lemma checkPropertyValidity_built:
  "checkPropertyValidity
     (zero_Testsuites
        \<lparr>tss_Name := a, tss_Tests := b,
         tss_Testsuites := [zero_Testsuite\<lparr>ts_Name := c, ts_Testcases := d, ts_Errors := e\<rparr>]\<rparr>)
   = None"
  by (simp add: checkPropertyValidity_def zero_Testsuites_def zero_Testsuite_def)

section \<open>The builder: cases, counts and paths\<close>

text \<open>
  Claim C2. Let every invalid report carry an error, as the input contract has it (on a
  nil error the call \<^verbatim>\<open>r.ValidationError.Error()\<close> panics and no case is built).
  Then Print builds a document with one suite whose cases stand one per report; the case
  of an invalid report carries a Failure record whose message is the string form of the
  report's error, the case of a valid report carries no Failure, Error or Skipped
  record, and the suite's \<^verbatim>\<open>errors\<close> count is the number of invalid reports.
\<close>

theorem Print_failure_records:
  assumes "\<forall>r\<in>set reports. \<not> IsValid r \<longrightarrow> ValidationError r \<noteq> None"
  shows "\<exists>doc suite cases.
           Print_build reports = Return doc \<and> tss_Testsuites doc = [suite] \<and>
           ts_Testcases suite = Some cases \<and> length cases = length reports \<and>
           ts_Errors suite = int (length (filter (\<lambda>r. \<not> IsValid r) reports)) \<and>
           (\<forall>i<length reports.
              if IsValid (reports ! i)
              then tc_TestcaseFailure (cases ! i) = None \<and>
                   tc_TestcaseError (cases ! i) = None \<and> tc_Skipped (cases ! i) = None
              else \<exists>err. ValidationError (reports ! i) = Some err \<and>
                     tc_TestcaseFailure (cases ! i) =
                       Some (zero_TestcaseFailure\<lparr>fail_Message := Error err\<rparr>))"
proof -
  let ?suite = "zero_Testsuite\<lparr>ts_Name := ''config-file-validator'',
                  ts_Testcases := Some (map case_of_report reports),
                  ts_Errors := count_invalid reports\<rparr>"
  have inv: "\<exists>err. ValidationError (reports ! i) = Some err"
    if "i < length reports" "\<not> IsValid (reports ! i)" for i
    using that assms nth_mem [of i reports] by auto
  have "\<forall>i<length reports.
          if IsValid (reports ! i)
          then tc_TestcaseFailure (map case_of_report reports ! i) = None \<and>
               tc_TestcaseError (map case_of_report reports ! i) = None \<and>
               tc_Skipped (map case_of_report reports ! i) = None
          else \<exists>err. ValidationError (reports ! i) = Some err \<and>
                 tc_TestcaseFailure (map case_of_report reports ! i) =
                   Some (zero_TestcaseFailure\<lparr>fail_Message := Error err\<rparr>)"
    using inv by (fastforce simp: case_of_report_fields)
  moreover have "ts_Errors ?suite = int (length (filter (\<lambda>r. \<not> IsValid r) reports))"
    by (simp add: count_invalid_def)
  moreover have "ts_Testcases ?suite = Some (map case_of_report reports)"
    by simp
  moreover have "length (map case_of_report reports) = length reports"
    by simp
  ultimately show ?thesis
    unfolding Print_build_Return [OF assms]
    by (intro exI [of _ "zero_Testsuites
             \<lparr>tss_Name := ''config-file-validator'',
              tss_Tests := int (length reports),
              tss_Testsuites := [?suite]\<rparr>"] exI [of _ ?suite]
            exI [of _ "map case_of_report reports"])
       (simp only: zero_Testsuites_sel simp_thms)
qed

theorem Print_failure_records_witness:
  "\<exists>doc suite cases.
     Print_build example_reports = Return doc \<and> tss_Testsuites doc = [suite] \<and>
     ts_Testcases suite = Some cases \<and> length cases = 2 \<and> ts_Errors suite = 1 \<and>
     tc_TestcaseFailure (cases ! 0) = None \<and> tc_TestcaseError (cases ! 0) = None \<and>
     tc_Skipped (cases ! 0) = None \<and>
     tc_TestcaseFailure (cases ! 1) =
       Some \<lparr>fail_Message = ''bad key'', fail_Type = [], fail_TextValue = []\<rparr>"
proof -
  have contract: "\<forall>r\<in>set example_reports. \<not> IsValid r \<longrightarrow> ValidationError r \<noteq> None"
    by (simp add: example_reports_def)
  from Print_failure_records [OF contract] obtain doc suite cases where
    built: "Print_build example_reports = Return doc" "tss_Testsuites doc = [suite]"
      "ts_Testcases suite = Some cases" "length cases = length example_reports"
      "ts_Errors suite = int (length (filter (\<lambda>r. \<not> IsValid r) example_reports))"
    and each: "\<forall>i<length example_reports.
              if IsValid (example_reports ! i)
              then tc_TestcaseFailure (cases ! i) = None \<and>
                   tc_TestcaseError (cases ! i) = None \<and> tc_Skipped (cases ! i) = None
              else \<exists>err. ValidationError (example_reports ! i) = Some err \<and>
                     tc_TestcaseFailure (cases ! i) =
                       Some (zero_TestcaseFailure\<lparr>fail_Message := Error err\<rparr>)"
    by blast
  from each [rule_format, of 0] have first:
    "tc_TestcaseFailure (cases ! 0) = None \<and> tc_TestcaseError (cases ! 0) = None \<and>
     tc_Skipped (cases ! 0) = None"
    by (simp add: example_reports_def)
  from each [rule_format, of 1] have second:
    "tc_TestcaseFailure (cases ! 1) =
       Some \<lparr>fail_Message = ''bad key'', fail_Type = [], fail_TextValue = []\<rparr>"
    by (simp add: example_reports_def zero_TestcaseFailure_def)
  from built have "length cases = 2" "ts_Errors suite = 1"
    by (simp_all add: example_reports_def)
  with built first second show ?thesis
    by blast
qed

text \<open>
  Claim C3. Under the same input contract, for a list of N reports (N = 0 included)
  Print builds a document with \<^verbatim>\<open>tests\<close> = N and exactly one suite; the suite holds N
  cases, the i-th built from the i-th report, named by the report's path (backslashes
  rewritten) followed by \<^verbatim>\<open> validation\<close> and with the class name
  \<^verbatim>\<open>config-file-validator\<close>. The document passes the validator, the empty one too.
\<close>

theorem Print_one_suite_of_N_cases:
  assumes "\<forall>r\<in>set reports. \<not> IsValid r \<longrightarrow> ValidationError r \<noteq> None"
  shows "\<exists>doc suite cases.
           Print_build reports = Return doc \<and> checkPropertyValidity doc = None \<and>
           tss_Tests doc = int (length reports) \<and> tss_Testsuites doc = [suite] \<and>
           ts_Testcases suite = Some cases \<and> length cases = length reports \<and>
           (\<forall>i<length reports.
              tc_Name (cases ! i) = Print_FilePath (FilePath (reports ! i)) @ '' validation'' \<and>
              tc_ClassName (cases ! i) = ''config-file-validator'')"
proof -
  let ?suite = "zero_Testsuite\<lparr>ts_Name := ''config-file-validator'',
                  ts_Testcases := Some (map case_of_report reports),
                  ts_Errors := count_invalid reports\<rparr>"
  let ?doc = "zero_Testsuites\<lparr>tss_Name := ''config-file-validator'',
                tss_Tests := int (length reports), tss_Testsuites := [?suite]\<rparr>"
  have "Print_build reports = Return ?doc"
    by (rule Print_build_Return [OF assms])
  moreover have "checkPropertyValidity ?doc = None"
    by (rule checkPropertyValidity_built)
  moreover have "tss_Tests ?doc = int (length reports)" "tss_Testsuites ?doc = [?suite]"
    by (simp_all only: zero_Testsuites_sel)
  moreover have "ts_Testcases ?suite = Some (map case_of_report reports)"
    "length (map case_of_report reports) = length reports"
    by simp_all
  moreover have "\<forall>i<length reports.
      tc_Name (map case_of_report reports ! i) =
        Print_FilePath (FilePath (reports ! i)) @ '' validation'' \<and>
      tc_ClassName (map case_of_report reports ! i) = ''config-file-validator''"
    by (simp add: case_of_report_fields)
  ultimately show ?thesis
    by blast
qed

theorem Print_one_suite_of_N_cases_witness:
  "(\<exists>doc suite cases.
      Print_build example_reports = Return doc \<and> checkPropertyValidity doc = None \<and>
      tss_Tests doc = 2 \<and> tss_Testsuites doc = [suite] \<and>
      ts_Testcases suite = Some cases \<and> length cases = 2 \<and>
      tc_Name (cases ! 0) = ''cfg/a.yaml validation'' \<and>
      tc_Name (cases ! 1) = ''cfg/b.yaml validation'' \<and>
      tc_ClassName (cases ! 0) = ''config-file-validator'' \<and>
      tc_ClassName (cases ! 1) = ''config-file-validator'') \<and>
   (\<exists>doc suite.
      Print_build [] = Return doc \<and> checkPropertyValidity doc = None \<and>
      tss_Tests doc = 0 \<and> tss_Testsuites doc = [suite] \<and> ts_Testcases suite = Some [])"
proof -
  have contract: "\<forall>r\<in>set example_reports. \<not> IsValid r \<longrightarrow> ValidationError r \<noteq> None"
    by (simp add: example_reports_def)
  from Print_one_suite_of_N_cases [OF contract] obtain doc suite cases where
    built: "Print_build example_reports = Return doc" "checkPropertyValidity doc = None"
      "tss_Tests doc = int (length example_reports)" "tss_Testsuites doc = [suite]"
      "ts_Testcases suite = Some cases" "length cases = length example_reports"
    and each: "\<forall>i<length example_reports.
      tc_Name (cases ! i) = Print_FilePath (FilePath (example_reports ! i)) @ '' validation'' \<and>
      tc_ClassName (cases ! i) = ''config-file-validator''"
    by blast
  from each [rule_format, of 0] have first:
    "tc_Name (cases ! 0) = ''cfg/a.yaml validation''"
    "tc_ClassName (cases ! 0) = ''config-file-validator''"
    by (simp_all add: example_reports_def Print_FilePath_map)
  from each [rule_format, of 1] have second:
    "tc_Name (cases ! 1) = ''cfg/b.yaml validation''"
    "tc_ClassName (cases ! 1) = ''config-file-validator''"
    by (simp_all add: example_reports_def Print_FilePath_map)
  from built have "tss_Tests doc = 2" "length cases = 2"
    by (simp_all add: example_reports_def)
  with built first second have two:
    "\<exists>doc suite cases.
      Print_build example_reports = Return doc \<and> checkPropertyValidity doc = None \<and>
      tss_Tests doc = 2 \<and> tss_Testsuites doc = [suite] \<and>
      ts_Testcases suite = Some cases \<and> length cases = 2 \<and>
      tc_Name (cases ! 0) = ''cfg/a.yaml validation'' \<and>
      tc_Name (cases ! 1) = ''cfg/b.yaml validation'' \<and>
      tc_ClassName (cases ! 0) = ''config-file-validator'' \<and>
      tc_ClassName (cases ! 1) = ''config-file-validator''"
    by blast
  have "\<forall>r\<in>set ([] :: Report list). \<not> IsValid r \<longrightarrow> ValidationError r \<noteq> None"
    by simp
  from Print_one_suite_of_N_cases [OF this] have none:
    "\<exists>doc suite.
      Print_build [] = Return doc \<and> checkPropertyValidity doc = None \<and>
      tss_Tests doc = 0 \<and> tss_Testsuites doc = [suite] \<and> ts_Testcases suite = Some []"
    by auto
  from two none show ?thesis
    by blast
qed

text \<open>
  Claim C5. Under the input contract, the file reference and the name of the i-th case
  are made from the i-th path with every backslash replaced by a forward slash and
  every other byte unchanged; the path \<^verbatim>\<open>a\b\c.yaml\<close> gives \<^verbatim>\<open>a/b/c.yaml\<close>. The suite
  records no file of its own, so the cases hold every file reference of the document.
\<close>

theorem Print_rewrites_backslashes:
  assumes "\<forall>r\<in>set reports. \<not> IsValid r \<longrightarrow> ValidationError r \<noteq> None"
  shows "\<exists>doc suite cases.
           Print_build reports = Return doc \<and> tss_Testsuites doc = [suite] \<and>
           ts_Testcases suite = Some cases \<and> length cases = length reports \<and>
           ts_File suite = [] \<and>
           (\<forall>i<length reports.
              tc_File (cases ! i) =
                map (\<lambda>c. if c = CHR 0x5C then CHR ''/'' else c) (FilePath (reports ! i)) \<and>
              tc_Name (cases ! i) =
                map (\<lambda>c. if c = CHR 0x5C then CHR ''/'' else c) (FilePath (reports ! i)) @
                '' validation'')"
proof -
  let ?suite = "zero_Testsuite\<lparr>ts_Name := ''config-file-validator'',
                  ts_Testcases := Some (map case_of_report reports),
                  ts_Errors := count_invalid reports\<rparr>"
  let ?doc = "zero_Testsuites\<lparr>tss_Name := ''config-file-validator'',
                tss_Tests := int (length reports), tss_Testsuites := [?suite]\<rparr>"
  have "Print_build reports = Return ?doc"
    by (rule Print_build_Return [OF assms])
  moreover have "tss_Testsuites ?doc = [?suite]"
    by (simp only: zero_Testsuites_sel)
  moreover have "ts_Testcases ?suite = Some (map case_of_report reports)"
    "length (map case_of_report reports) = length reports"
    "ts_File ?suite = []"
    by (simp_all add: zero_Testsuite_def)
  moreover have "\<forall>i<length reports.
      tc_File (map case_of_report reports ! i) =
        map (\<lambda>c. if c = CHR 0x5C then CHR ''/'' else c) (FilePath (reports ! i)) \<and>
      tc_Name (map case_of_report reports ! i) =
        map (\<lambda>c. if c = CHR 0x5C then CHR ''/'' else c) (FilePath (reports ! i)) @
        '' validation''"
    by (simp add: case_of_report_fields Print_FilePath_map)
  ultimately show ?thesis
    by blast
qed

theorem Print_rewrites_backslashes_witness:
  "\<exists>doc suite cases.
     Print_build [windows_report] = Return doc \<and> tss_Testsuites doc = [suite] \<and>
     ts_Testcases suite = Some cases \<and> length cases = 1 \<and>
     tc_File (cases ! 0) = ''a/b/c.yaml'' \<and> tc_Name (cases ! 0) = ''a/b/c.yaml validation''"
proof -
  have contract: "\<forall>r\<in>set [windows_report]. \<not> IsValid r \<longrightarrow> ValidationError r \<noteq> None"
    by (simp add: windows_report_def)
  from Print_rewrites_backslashes [OF contract] obtain doc suite cases where
    built: "Print_build [windows_report] = Return doc" "tss_Testsuites doc = [suite]"
      "ts_Testcases suite = Some cases" "length cases = length [windows_report]"
    and each: "\<forall>i<length [windows_report].
      tc_File (cases ! i) =
        map (\<lambda>c. if c = CHR 0x5C then CHR ''/'' else c) (FilePath ([windows_report] ! i)) \<and>
      tc_Name (cases ! i) =
        map (\<lambda>c. if c = CHR 0x5C then CHR ''/'' else c) (FilePath ([windows_report] ! i)) @
        '' validation''"
    by blast
  from each [rule_format, of 0] have
    "tc_File (cases ! 0) = ''a/b/c.yaml''" "tc_Name (cases ! 0) = ''a/b/c.yaml validation''"
    by (simp_all add: windows_report_def)
  moreover from built have "length cases = 1"
    by simp
  ultimately show ?thesis
    using built by blast
qed

text \<open>
  Against claim C7 as stated: the case of an invalid report carries no Error record, and
  it does carry a Failure record.
\<close>

theorem invalid_report_error_node_counterexample:
  "map tc_TestcaseError (built_cases (Print_build [invalid_report])) = [None] \<and>
   map tc_TestcaseFailure (built_cases (Print_build [invalid_report])) =
     [Some \<lparr>fail_Message = ''bad key'', fail_Type = [], fail_TextValue = []\<rparr>]"
  by (simp add: built_cases_def Print_build_def invalid_report_def Let_def
        Print_Testcase_def zero_Testcase_def zero_TestcaseFailure_def
        zero_Testsuites_def zero_Testsuite_def)

text \<open>
  Claim C7, amended. Under the input contract the builder converts invalid results only
  into failure nodes, never error nodes: no case carries a TestcaseError, and the case
  of every invalid report carries a TestcaseFailure, with the error's string form as
  its message.
\<close>

theorem Print_failure_nodes_only:
  assumes "\<forall>r\<in>set reports. \<not> IsValid r \<longrightarrow> ValidationError r \<noteq> None"
  shows "\<exists>doc. Print_build reports = Return doc \<and>
           length (built_cases (Return doc)) = length reports \<and>
           (\<forall>i<length reports.
              tc_TestcaseError (built_cases (Return doc) ! i) = None \<and>
              (\<not> IsValid (reports ! i) \<longrightarrow>
                 (\<exists>err. ValidationError (reports ! i) = Some err \<and>
                    tc_TestcaseFailure (built_cases (Return doc) ! i) =
                      Some (zero_TestcaseFailure\<lparr>fail_Message := Error err\<rparr>))))"
proof -
  let ?suite = "zero_Testsuite\<lparr>ts_Name := ''config-file-validator'',
                  ts_Testcases := Some (map case_of_report reports),
                  ts_Errors := count_invalid reports\<rparr>"
  let ?doc = "zero_Testsuites\<lparr>tss_Name := ''config-file-validator'',
                tss_Tests := int (length reports), tss_Testsuites := [?suite]\<rparr>"
  have cases: "built_cases (Return ?doc) = map case_of_report reports"
    by (simp add: built_cases_def)
  have inv: "\<exists>err. ValidationError (reports ! i) = Some err"
    if "i < length reports" "\<not> IsValid (reports ! i)" for i
    using that assms nth_mem [of i reports] by auto
  have "Print_build reports = Return ?doc"
    by (rule Print_build_Return [OF assms])
  moreover have "length (built_cases (Return ?doc)) = length reports"
    by (simp add: cases)
  moreover have "\<forall>i<length reports.
      tc_TestcaseError (built_cases (Return ?doc) ! i) = None \<and>
      (\<not> IsValid (reports ! i) \<longrightarrow>
         (\<exists>err. ValidationError (reports ! i) = Some err \<and>
            tc_TestcaseFailure (built_cases (Return ?doc) ! i) =
              Some (zero_TestcaseFailure\<lparr>fail_Message := Error err\<rparr>)))"
    using inv by (fastforce simp: cases case_of_report_fields)
  ultimately show ?thesis
    by blast
qed

theorem Print_failure_nodes_only_witness:
  "\<exists>doc. Print_build [invalid_report] = Return doc \<and>
     length (built_cases (Return doc)) = 1 \<and>
     tc_TestcaseError (built_cases (Return doc) ! 0) = None \<and>
     tc_TestcaseFailure (built_cases (Return doc) ! 0) =
       Some \<lparr>fail_Message = ''bad key'', fail_Type = [], fail_TextValue = []\<rparr>"
proof -
  have contract: "\<forall>r\<in>set [invalid_report]. \<not> IsValid r \<longrightarrow> ValidationError r \<noteq> None"
    by (simp add: invalid_report_def)
  from Print_failure_nodes_only [OF contract] obtain doc where
    built: "Print_build [invalid_report] = Return doc"
      "length (built_cases (Return doc)) = length [invalid_report]"
    and each: "\<forall>i<length [invalid_report].
      tc_TestcaseError (built_cases (Return doc) ! i) = None \<and>
      (\<not> IsValid ([invalid_report] ! i) \<longrightarrow>
         (\<exists>err. ValidationError ([invalid_report] ! i) = Some err \<and>
            tc_TestcaseFailure (built_cases (Return doc) ! i) =
              Some (zero_TestcaseFailure\<lparr>fail_Message := Error err\<rparr>)))"
    by blast
  from each [rule_format, of 0] have
    "tc_TestcaseError (built_cases (Return doc) ! 0) = None"
    "tc_TestcaseFailure (built_cases (Return doc) ! 0) =
       Some \<lparr>fail_Message = ''bad key'', fail_Type = [], fail_TextValue = []\<rparr>"
    by (simp_all add: invalid_report_def zero_TestcaseFailure_def)
  moreover from built have "length (built_cases (Return doc)) = 1"
    by simp
  ultimately show ?thesis
    using built by blast
qed

text \<open>
  Claim C10. When every invalid report carries an error (valid reports may carry none:
  \<^verbatim>\<open>Error()\<close> is called on the invalid branch only), Print returns; the panic of the
  nil dereference is not reached, whatever the encoder and the earlier output.
\<close>

theorem Print_no_nil_dereference:
  assumes "\<forall>r\<in>set reports. \<not> IsValid r \<longrightarrow> ValidationError r \<noteq> None"
  shows "\<exists>result stdout'. Print MarshalIndent reports stdout = (Return result, stdout')"
proof -
  from Print_build_Return [OF assms] obtain doc where "Print_build reports = Return doc"
    by blast
  then show ?thesis
    by (simp add: Print_def split: prod.split)
qed

theorem Print_no_nil_dereference_witness:
  "\<exists>result stdout'.
     Print (fixed_encoder ''<testsuites></testsuites>'') example_reports [] =
       (Return result, stdout')"
proof -
  have contract: "\<forall>r\<in>set example_reports. \<not> IsValid r \<longrightarrow> ValidationError r \<noteq> None"
    by (simp add: example_reports_def)
  from Print_no_nil_dereference [OF contract] show ?thesis .
qed

section \<open>The validator\<close>

text \<open>
  Claim C1. The claim fails on the code: a property with both a value and inline text on
  a case goes unnoticed when the \<^verbatim>\<open>Properties\<close> pointer of the owning suite is nil,
  because the \<^verbatim>\<open>continue\<close> of line 101 leaves the suite before its cases are
  visited; the document is then rendered and printed. The same case under a suite
  whose pointer is set (to an empty slice) is reported.
\<close>

theorem checkPropertyValidity_skips_cases_of_plain_suite:
  "checkPropertyValidity case_property_doc = None \<and>
   Print_write (fixed_encoder ''<testsuites></testsuites>'') case_property_doc [] =
     (None, Header @ ''<testsuites></testsuites>'' @ [CHR 0x0A]) \<and>
   checkPropertyValidity case_property_doc_checked =
     Some (GoError ''property p in testcase c should contain value or a text value, not both'')"
  by (simp add: checkPropertyValidity_def case_property_doc_def case_property_doc_checked_def
        zero_Testsuites_def zero_Testsuite_def zero_Testcase_def both_property_def
        Errorf_testcase_def Print_write_def getReport_def fixed_encoder_def)

section \<open>The serializer\<close>

text \<open>
  Claim C4. The claim fails on the code: \<^verbatim>\<open>Message\<close> of \<^verbatim>\<open>TestcaseFailure\<close> is tagged
  \<^verbatim>\<open>xml:"message,omitempty"\<close>, without \<^verbatim>\<open>attr\<close>, so the message of an invalid report
  is marshalled as a child element \<^verbatim>\<open>message\<close> of \<^verbatim>\<open>failure\<close>, which has no attribute.
\<close>

theorem failure_message_is_child_element:
  "\<exists>doc. Print_build [invalid_report] = Return doc \<and>
     marshal_Testsuites doc =
       Element ''testsuites''
         [(''name'', AttrString ''config-file-validator''), (''tests'', AttrInt 1)]
         [Element ''testsuite''
            [(''name'', AttrString ''config-file-validator''), (''errors'', AttrInt 1)]
            [Element ''testcase''
               [(''name'', AttrString ''a.yaml validation''),
                (''classname'', AttrString ''config-file-validator''),
                (''file'', AttrString ''a.yaml'')]
               [Element ''failure'' []
                  [Element ''message'' [] [CharData ''bad key''], CharData []]]]]"
  by (simp add: Print_build_def invalid_report_def Let_def Print_FilePath_def
        Print_Testcase_def Sprintf_validation_def zero_Testcase_def zero_TestcaseFailure_def
        zero_Testsuites_def zero_Testsuite_def marshal_Testsuites_def marshal_Testsuite_def
        marshal_Testcase_def marshal_TestcaseFailure_def marshal_Properties_def
        attr_string_def attr_string_omitempty_def attr_int_omitempty_def
        attr_float_omitempty_def attr_time_omitempty_def elem_string_omitempty_def
        float32_is_zero_def)

lemmas attr_defs = attr_string_def attr_string_omitempty_def attr_int_omitempty_def
  attr_float_omitempty_def attr_time_omitempty_def

lemma conform_plain: "attrs_conform (Element ''message'' [] cs)" "attrs_conform (Element ''type'' [] cs)"
  "attrs_conform (Element ''properties'' [] cs)"
  by (simp_all add: attrs_conform_def always_emitted_def)

lemma conform_Property: "attrs_conform (marshal_Property p)"
  by (simp add: attrs_conform_def always_emitted_def marshal_Property_def attr_defs)

lemma conform_Skipped: "attrs_conform (marshal_Skipped s)"
  by (simp add: attrs_conform_def always_emitted_def marshal_Skipped_def attr_defs)

lemma elements_Property: "elements (marshal_Property p) = [marshal_Property p]"
  by (simp add: marshal_Property_def)

lemma elements_Skipped: "elements (marshal_Skipped p) = [marshal_Skipped p]"
  by (simp add: marshal_Skipped_def)

lemma all_conform_Properties:
  "n \<in> set (concat (map elements (marshal_Properties ps))) \<Longrightarrow> attrs_conform n"
  by (cases ps) (auto simp: marshal_Properties_def elements_Property conform_Property conform_plain  comp_def)

lemma all_conform_TestcaseError:
  "n \<in> set (elements (marshal_TestcaseError e)) \<Longrightarrow> attrs_conform n"
  by (auto simp: marshal_TestcaseError_def elem_string_omitempty_def attrs_conform_def
      always_emitted_def split: if_splits)

lemma all_conform_TestcaseFailure:
  "n \<in> set (elements (marshal_TestcaseFailure e)) \<Longrightarrow> attrs_conform n"
  by (auto simp: marshal_TestcaseFailure_def elem_string_omitempty_def attrs_conform_def
      always_emitted_def split: if_splits)

lemma all_conform_SystemOut:
  "n \<in> set (elements (marshal_SystemOut e)) \<Longrightarrow> attrs_conform n"
  by (auto simp: marshal_SystemOut_def attrs_conform_def always_emitted_def)

lemma all_conform_SystemErr:
  "n \<in> set (elements (marshal_SystemErr e)) \<Longrightarrow> attrs_conform n"
  by (auto simp: marshal_SystemErr_def attrs_conform_def always_emitted_def)

lemma conform_Testcase_root:
  "attrs_conform (Element ''testcase''
       (attr_string ''name'' a @
        attr_string ''classname'' b @
        attr_int_omitempty ''assertions'' c @
        attr_float_omitempty ''time'' d @
        attr_string_omitempty ''file'' e @
        attr_int_omitempty ''line'' f) cs)"
  by (simp add: attrs_conform_def always_emitted_def attr_defs)

lemma all_conform_Testcase:
  assumes "n \<in> set (elements (marshal_Testcase tc))"
  shows "attrs_conform n"
proof -
  from assms consider
      "n = marshal_Testcase tc"
    | s where "tc_Skipped tc = Some s" "n \<in> set (elements (marshal_Skipped s))"
    | "n \<in> set (concat (map elements (marshal_Properties (tc_Properties tc))))"
    | e where "tc_TestcaseError tc = Some e" "n \<in> set (elements (marshal_TestcaseError e))"
    | f where "tc_TestcaseFailure tc = Some f" "n \<in> set (elements (marshal_TestcaseFailure f))"
    by (auto simp: marshal_Testcase_def split: option.splits)
  then show ?thesis
  proof cases
    case 1
    then show ?thesis by (simp add: marshal_Testcase_def conform_Testcase_root)
  next
    case 2
    then show ?thesis by (simp add: elements_Skipped conform_Skipped)
  next
    case 3
    then show ?thesis by (rule all_conform_Properties)
  next
    case 4
    then show ?thesis by (simp add: all_conform_TestcaseError)
  next
    case 5
    then show ?thesis by (simp add: all_conform_TestcaseFailure)
  qed
qed

lemma conform_Testsuite_root:
  "attrs_conform (Element ''testsuite''
       (attr_string ''name'' a @
        attr_int_omitempty ''tests'' b @
        attr_int_omitempty ''failures'' c @
        attr_int_omitempty ''errors'' d @
        attr_int_omitempty ''skipped'' e @
        attr_int_omitempty ''assertions'' f @
        attr_float_omitempty ''time'' g @
        attr_time_omitempty ''timestamp'' h @
        attr_string_omitempty ''file'' i) cs)"
  by (simp add: attrs_conform_def always_emitted_def attr_defs split: option.split)

lemma all_conform_Testsuite:
  assumes "n \<in> set (elements (marshal_Testsuite ts))"
  shows "attrs_conform n"
proof -
  from assms consider
      "n = marshal_Testsuite ts"
    | tcs tc where "ts_Testcases ts = Some tcs" "tc \<in> set tcs"
        "n \<in> set (elements (marshal_Testcase tc))"
    | "n \<in> set (concat (map elements (marshal_Properties (ts_Properties ts))))"
    | s where "ts_SystemOut ts = Some s" "n \<in> set (elements (marshal_SystemOut s))"
    | s where "ts_SystemErr ts = Some s" "n \<in> set (elements (marshal_SystemErr s))"
    by (auto simp: marshal_Testsuite_def split: option.splits)
  then show ?thesis
  proof cases
    case 1
    then show ?thesis by (simp add: marshal_Testsuite_def conform_Testsuite_root)
  next
    case 2
    then show ?thesis by (simp add: all_conform_Testcase)
  next
    case 3
    then show ?thesis by (rule all_conform_Properties)
  next
    case 4
    then show ?thesis by (simp add: all_conform_SystemOut)
  next
    case 5
    then show ?thesis by (simp add: all_conform_SystemErr)
  qed
qed

lemma conform_Testsuites_root:
  "attrs_conform (Element ''testsuites''
       (attr_string_omitempty ''name'' a @
        attr_int_omitempty ''tests'' b @
        attr_int_omitempty ''failures'' c @
        attr_int_omitempty ''errors'' d @
        attr_int_omitempty ''skipped'' e @
        attr_int_omitempty ''assertions'' f @
        attr_float_omitempty ''time'' g @
        attr_time_omitempty ''timestamp'' h) cs)"
  by (simp add: attrs_conform_def always_emitted_def attr_defs split: option.split)

lemma all_conform_Testsuites:
  assumes "n \<in> set (elements (marshal_Testsuites d))"
  shows "attrs_conform n"
proof -
  from assms consider
      "n = marshal_Testsuites d"
    | ts where "ts \<in> set (tss_Testsuites d)" "n \<in> set (elements (marshal_Testsuite ts))"
    by (auto simp: marshal_Testsuites_def)
  then show ?thesis
  proof cases
    case 1
    then show ?thesis by (simp add: marshal_Testsuites_def conform_Testsuites_root)
  next
    case 2
    then show ?thesis by (simp add: all_conform_Testsuite)
  qed
qed

text \<open>
  Against claim C8 as stated: a property without a name and a skipped marker without a
  message are marshalled with an empty \<^verbatim>\<open>name\<close> and an empty \<^verbatim>\<open>message\<close> attribute.
\<close>

theorem empty_required_attributes_counterexample:
  "Element ''property'' [(''name'', AttrString [])] [CharData []]
     \<in> set (elements (marshal_Testsuites empty_names_doc)) \<and>
   Element ''skipped'' [(''message'', AttrString [])] []
     \<in> set (elements (marshal_Testsuites empty_names_doc))"
  by (simp add: empty_names_doc_def zero_Testsuites_def zero_Testsuite_def zero_Testcase_def
        zero_Property_def marshal_Testsuites_def marshal_Testsuite_def marshal_Testcase_def
        marshal_Properties_def marshal_Property_def marshal_Skipped_def attr_defs
        float32_is_zero_def)

text \<open>
  Claim C8, amended. In every element of a marshalled document, an attribute whose value
  is the zero value of its type (empty string, zero number) is one of the always-emitted
  attributes: \<^verbatim>\<open>name\<close> on a suite, a case or a property, \<^verbatim>\<open>classname\<close> on a case,
  \<^verbatim>\<open>message\<close> on a skipped marker (a nil timestamp has no value to write). Each
  always-emitted attribute of an element is present, whatever its value.
\<close>

theorem marshal_omits_zero_attributes:
  assumes "n \<in> set (elements (marshal_Testsuites d))"
  shows "(\<forall>k v. (k, v) \<in> set (node_attrs n) \<and> attr_is_zero v \<longrightarrow>
            (node_name n, k) \<in> set always_emitted) \<and>
         (\<forall>k. (node_name n, k) \<in> set always_emitted \<longrightarrow> k \<in> fst ` set (node_attrs n))"
  using all_conform_Testsuites [OF assms]
  by (auto simp: attrs_conform_def list_all_iff)

theorem marshal_omits_zero_attributes_witness:
  "marshal_Property zero_Property \<in> set (elements (marshal_Testsuites empty_names_doc)) \<and>
   (''name'', AttrString []) \<in> set (node_attrs (marshal_Property zero_Property)) \<and>
   (node_name (marshal_Property zero_Property), ''name'') \<in> set always_emitted"
proof -
  have inside:
    "marshal_Property zero_Property \<in> set (elements (marshal_Testsuites empty_names_doc))"
    by (simp add: empty_names_doc_def zero_Testsuites_def zero_Testsuite_def zero_Testcase_def
          marshal_Testsuites_def marshal_Testsuite_def marshal_Testcase_def
          marshal_Properties_def elements_Property marshal_Skipped_def attr_defs
          float32_is_zero_def)
  have present: "(''name'', AttrString []) \<in> set (node_attrs (marshal_Property zero_Property))"
    by (simp add: marshal_Property_def zero_Property_def attr_defs)
  from marshal_omits_zero_attributes [OF inside] present
  have "(node_name (marshal_Property zero_Property), ''name'') \<in> set always_emitted"
    by (metis attr_is_zero.simps(1))
  with inside present show ?thesis
    by blast
qed

section \<open>Rendering and printing\<close>

text \<open>
  Claim C6. When the validator returns an error, getReport returns that very error
  whatever the encoder is (the encoder is not consulted: any two encoders give the same
  result), and lines 165--170 of Print return it and leave standard output as it was.
\<close>

theorem getReport_fails_closed:
  assumes "checkPropertyValidity ts = Some err"
  shows "getReport MarshalIndent ts = Inl err \<and>
         getReport MarshalIndent' ts = getReport MarshalIndent ts \<and>
         Print_write MarshalIndent ts stdout = (Some err, stdout)"
  using assms by (simp add: getReport_def Print_write_def)

theorem getReport_fails_closed_witness:
  "getReport (fixed_encoder ''<testsuites></testsuites>'') suite_property_doc =
     Inl (GoError ''property p in testsuite s should contain value or a text value, not both'') \<and>
   Print_write (fixed_encoder ''<testsuites></testsuites>'') suite_property_doc ''earlier'' =
     (Some (GoError ''property p in testsuite s should contain value or a text value, not both''),
      ''earlier'')"
proof -
  have invalid: "checkPropertyValidity suite_property_doc =
      Some (GoError ''property p in testsuite s should contain value or a text value, not both'')"
    by (simp add: checkPropertyValidity_def suite_property_doc_def zero_Testsuites_def
          zero_Testsuite_def both_property_def Errorf_testsuite_def)
  from getReport_fails_closed [OF invalid] show ?thesis
    by blast
qed

text \<open>
  Against claim C9 as stated: what Print writes for the empty list is not the header
  followed by the body; \<^verbatim>\<open>fmt.Println\<close> ends it with a newline.
\<close>

theorem Print_output_trailing_newline_counterexample:
  "snd (Print (fixed_encoder ''<testsuites></testsuites>'') [] []) \<noteq>
     Header @ ''<testsuites></testsuites>''"
  by (simp add: Print_def Print_build_def Print_write_def getReport_def fixed_encoder_def
        checkPropertyValidity_built)

text \<open>
  Claim C9, amended. Under the input contract, when the encoder returns a body, Print
  appends to standard output the header line, the body and one final newline, and
  returns nil; when the encoder fails, Print returns its error and standard output is
  unchanged.
\<close>

theorem Print_output:
  assumes "\<forall>r\<in>set reports. \<not> IsValid r \<longrightarrow> ValidationError r \<noteq> None"
  shows "\<exists>doc. Print_build reports = Return doc \<and>
           (case MarshalIndent (marshal_Testsuites doc) of
              Inr data \<Rightarrow>
                Print MarshalIndent reports stdout =
                  (Return None, stdout @ Header @ data @ [CHR 0x0A])
            | Inl err \<Rightarrow>
                Print MarshalIndent reports stdout = (Return (Some err), stdout))"
proof -
  let ?suite = "zero_Testsuite\<lparr>ts_Name := ''config-file-validator'',
                  ts_Testcases := Some (map case_of_report reports),
                  ts_Errors := count_invalid reports\<rparr>"
  let ?doc = "zero_Testsuites\<lparr>tss_Name := ''config-file-validator'',
                tss_Tests := int (length reports), tss_Testsuites := [?suite]\<rparr>"
  have built: "Print_build reports = Return ?doc"
    by (rule Print_build_Return [OF assms])
  have valid: "checkPropertyValidity ?doc = None"
    by (rule checkPropertyValidity_built)
  have "case MarshalIndent (marshal_Testsuites ?doc) of
          Inr data \<Rightarrow>
            Print MarshalIndent reports stdout =
              (Return None, stdout @ Header @ data @ [CHR 0x0A])
        | Inl err \<Rightarrow>
            Print MarshalIndent reports stdout = (Return (Some err), stdout)"
    by (simp add: Print_def built Print_write_def getReport_def valid split: sum.split)
  with built show ?thesis
    by blast
qed

theorem Print_output_witness:
  "Print (fixed_encoder ''<testsuites></testsuites>'') example_reports ''earlier'' =
     (Return None, ''earlier'' @ Header @ ''<testsuites></testsuites>'' @ [CHR 0x0A]) \<and>
   Print (failing_encoder (GoError ''encoder'')) example_reports ''earlier'' =
     (Return (Some (GoError ''encoder'')), ''earlier'')"
proof -
  have contract: "\<forall>r\<in>set example_reports. \<not> IsValid r \<longrightarrow> ValidationError r \<noteq> None"
    by (simp add: example_reports_def)
  from Print_output [OF contract, of "fixed_encoder ''<testsuites></testsuites>''" "''earlier''"]
  have "Print (fixed_encoder ''<testsuites></testsuites>'') example_reports ''earlier'' =
     (Return None, ''earlier'' @ Header @ ''<testsuites></testsuites>'' @ [CHR 0x0A])"
    by (auto simp: fixed_encoder_def)
  moreover
  from Print_output [OF contract, of "failing_encoder (GoError ''encoder'')" "''earlier''"]
  have "Print (failing_encoder (GoError ''encoder'')) example_reports ''earlier'' =
     (Return (Some (GoError ''encoder'')), ''earlier'')"
    by (auto simp: failing_encoder_def)
  ultimately show ?thesis
    by blast
qed

end
